theory Spec2Isabelle
  imports Complex_Main
begin

section \<open>The jukebox player (scripts/player.js)\<close>

text \<open>
  The \<open>Player\<close> class of \<open>scripts/player.js\<close> is embedded as a record of its fields,
  extended by the part of the browser it talks to: the audio elements it creates, the
  promises and timers it leaves behind, the events it dispatches on the document, the
  console and the \<open>error-msg\<close> element. Every method is a function from world to world.

  Numbers: a song index is an \<open>int\<close> (the callers pass \<open>Number(dataset.index)\<close>;
  fractional indices are not elements of the model). A volume is a JavaScript number: a
  real, an infinity or \<open>NaN\<close>. \<open>currentIndex\<close> is \<open>null\<close> or a number, an
  \<open>int option\<close>, and where the source compares or adds to it without a null check the
  coercion of \<open>null\<close> to \<open>0\<close> is written out (\<open>toNumber\<close>).
\<close>

subsection \<open>Numbers\<close>

text \<open>
  \<open>Math.min\<close> and \<open>Math.max\<close> return \<open>NaN\<close> as soon as an argument is \<open>NaN\<close>, and
  otherwise the smaller, or larger, of the two in the order of the extended reals.
\<close>

datatype number = Num real | PosInf | NegInf | NaN

fun num_le :: "number \<Rightarrow> number \<Rightarrow> bool" where
  "num_le NaN b = False"
| "num_le a NaN = False"
| "num_le NegInf b = True"
| "num_le a PosInf = True"
| "num_le (Num x) (Num y) = (x \<le> y)"
| "num_le PosInf b = False"
| "num_le a NegInf = False"

definition Math_min :: "number \<Rightarrow> number \<Rightarrow> number" where
  "Math_min a b = (if a = NaN \<or> b = NaN then NaN else if num_le a b then a else b)"

definition Math_max :: "number \<Rightarrow> number \<Rightarrow> number" where
  "Math_max a b = (if a = NaN \<or> b = NaN then NaN else if num_le a b then b else a)"

subsection \<open>Data\<close>

record song =
  title :: string
  artist :: string
  song_file :: string

text \<open>
  An audio element as the player uses it. The two listeners that \<open>play\<close> registers are
  part of the element: the \<open>error\<close> listener is a closure over the song, the \<open>ended\<close>
  listener refers to the player only. An assignment to the element's volume stores the
  value, as the element of the tests does.
\<close>

record audio_el =
  src :: string
  el_volume :: number
  currentTime :: real
  paused :: bool
  on_error :: "song option"
  on_ended :: bool

type_synonym handle = nat

record player =
  songs :: "song list"
  audio :: "handle option"
  currentIndex :: "int option"
  isPlaying :: bool
  isMuted :: bool
  volume :: number
  isSequence :: bool

text \<open>
  What the player leaves in the event loop: the promise of \<open>audio.play()\<close> with its
  \<open>then\<close>/\<open>catch\<close> pair (in \<open>play\<close>, a closure over index and song; in \<open>resume\<close>),
  and the two \<open>setTimeout\<close> calls of \<open>handlePlaybackError\<close> with their delay in
  milliseconds.
\<close>

datatype promise_callback = PlayStarted int song | ResumeStarted

datatype timer_callback = ClearErrorMsg song | SkipToNext

datatype task = Promise promise_callback | Timeout nat timer_callback

datatype dom_event = SongChange int song | PlaybackStopped

datatype console_entry =
    InvalidIndex int
  | AudioError
  | PlaybackFailed
  | ResumeFailed
  | NoSongs
  | Skipping string
  | EndOfPlaylist

record world = player +
  heap :: "handle \<Rightarrow> audio_el"
  nextHandle :: handle
  pending :: "task list"
  dispatched :: "dom_event list"
  console :: "console_entry list"
  errorMsg :: "string option"

subsection \<open>The audio element\<close>

definition new_Audio :: "string \<Rightarrow> audio_el" where
  "new_Audio f =
     \<lparr>src = f, el_volume = Num 1, currentTime = 0, paused = True, on_error = None, on_ended = False\<rparr>"

definition el_pause :: "handle \<Rightarrow> world \<Rightarrow> world" where
  "el_pause a w = w\<lparr>heap := (heap w)(a := (heap w a)\<lparr>paused := True\<rparr>)\<rparr>"

definition el_setCurrentTime :: "handle \<Rightarrow> real \<Rightarrow> world \<Rightarrow> world" where
  "el_setCurrentTime a t w = w\<lparr>heap := (heap w)(a := (heap w a)\<lparr>currentTime := t\<rparr>)\<rparr>"

definition el_setVolume :: "handle \<Rightarrow> number \<Rightarrow> world \<Rightarrow> world" where
  "el_setVolume a v w = w\<lparr>heap := (heap w)(a := (heap w a)\<lparr>el_volume := v\<rparr>)\<rparr>"

definition el_addListeners :: "handle \<Rightarrow> song \<Rightarrow> world \<Rightarrow> world" where
  "el_addListeners a s w =
     w\<lparr>heap := (heap w)(a := (heap w a)\<lparr>on_error := Some s, on_ended := True\<rparr>)\<rparr>"

text \<open>\<open>audio.play()\<close>: the element leaves the paused state and a promise is pending.\<close>

definition el_play :: "handle \<Rightarrow> promise_callback \<Rightarrow> world \<Rightarrow> world" where
  "el_play a cb w =
     w\<lparr>heap := (heap w)(a := (heap w a)\<lparr>paused := False\<rparr>),
       pending := pending w @ [Promise cb]\<rparr>"

subsection \<open>The player\<close>

definition Player :: "song list \<Rightarrow> string option \<Rightarrow> world" where
  "Player songList el =
     \<lparr>songs = songList, audio = None, currentIndex = None, isPlaying = False,
      isMuted = False, volume = Num 1, isSequence = False,
      heap = (\<lambda>_. new_Audio []), nextHandle = 0, pending = [], dispatched = [],
      console = [], errorMsg = el\<rparr>"

definition toNumber :: "int option \<Rightarrow> int" where
  "toNumber ci = (case ci of None \<Rightarrow> 0 | Some i \<Rightarrow> i)"

definition play :: "int \<Rightarrow> bool \<Rightarrow> world \<Rightarrow> world" where
  "play index fromSequence w =
     (if index < 0 \<or> index \<ge> int (length (songs w)) then
        w\<lparr>console := console w @ [InvalidIndex index]\<rparr>
      else
        let w1 = (case audio w of
                    None \<Rightarrow> w
                  | Some a \<Rightarrow>
                      let wasSequence = (isSequence w \<and> fromSequence);
                          wa = el_setCurrentTime a 0 (el_pause a w);
                          wb = wa\<lparr>audio := None, isPlaying := False\<rparr>
                      in if \<not> wasSequence then wb\<lparr>isSequence := False\<rparr> else wb);
            w2 = (if \<not> fromSequence then w1\<lparr>isSequence := True\<rparr> else w1);
            song = songs w2 ! nat index;
            a = nextHandle w2;
            w3 = w2\<lparr>heap := (heap w2)(a := new_Audio (song_file song)), nextHandle := Suc a,
                    audio := Some a, currentIndex := Some index\<rparr>;
            w4 = el_setVolume a (if isMuted w3 then Num 0 else volume w3) w3;
            w5 = el_addListeners a song w4
        in el_play a (PlayStarted index song) w5)"

definition pause :: "world \<Rightarrow> world" where
  "pause w =
     (case audio w of
        Some a \<Rightarrow> if isPlaying w then (el_pause a w)\<lparr>isPlaying := False\<rparr> else w
      | None \<Rightarrow> w)"

definition resume :: "world \<Rightarrow> world" where
  "resume w =
     (case audio w of
        Some a \<Rightarrow> if \<not> isPlaying w then el_play a ResumeStarted w else w
      | None \<Rightarrow> w)"

definition stop :: "world \<Rightarrow> world" where
  "stop w =
     (case audio w of
        Some a \<Rightarrow>
          let wa = el_setCurrentTime a 0 (el_pause a w)
          in wa\<lparr>audio := None, isPlaying := False, currentIndex := None, isSequence := False,
                dispatched := dispatched wa @ [PlaybackStopped]\<rparr>
      | None \<Rightarrow> w)"

definition setVolume :: "number \<Rightarrow> world \<Rightarrow> world" where
  "setVolume v w =
     (let w1 = w\<lparr>volume := Math_max (Num 0) (Math_min (Num 1) v)\<rparr>
      in case audio w1 of
           Some a \<Rightarrow> if \<not> isMuted w1 then el_setVolume a (volume w1) w1 else w1
         | None \<Rightarrow> w1)"

definition mute :: "world \<Rightarrow> world" where
  "mute w =
     (let w1 = w\<lparr>isMuted := True\<rparr>
      in case audio w1 of Some a \<Rightarrow> el_setVolume a (Num 0) w1 | None \<Rightarrow> w1)"

definition unmute :: "world \<Rightarrow> world" where
  "unmute w =
     (let w1 = w\<lparr>isMuted := False\<rparr>
      in case audio w1 of Some a \<Rightarrow> el_setVolume a (volume w1) w1 | None \<Rightarrow> w1)"

definition toggleMute :: "world \<Rightarrow> world" where
  "toggleMute w = (if isMuted w then unmute w else mute w)"

definition playAll :: "world \<Rightarrow> world" where
  "playAll w =
     (if length (songs w) = 0 then w\<lparr>console := console w @ [NoSongs]\<rparr>
      else play 0 True (w\<lparr>isSequence := True\<rparr>))"

text \<open>The body of the \<open>ended\<close> listener that \<open>play\<close> registers.\<close>

definition onEnded :: "world \<Rightarrow> world" where
  "onEnded w =
     (let w1 = w\<lparr>isPlaying := False\<rparr>
      in if isSequence w1 \<and> toNumber (currentIndex w1) < int (length (songs w1)) - 1
         then play (toNumber (currentIndex w1) + 1) True w1
         else w1\<lparr>isSequence := False\<rparr>)"

fun startsWith :: "string \<Rightarrow> string \<Rightarrow> bool" where
  "startsWith s [] = True"
| "startsWith [] (c # t) = False"
| "startsWith (d # s) (c # t) = (d = c \<and> startsWith s t)"

fun str_includes :: "string \<Rightarrow> string \<Rightarrow> bool" where
  "str_includes [] t = (t = [])"
| "str_includes (d # s) t = (startsWith (d # s) t \<or> str_includes s t)"

definition errorText :: "song \<Rightarrow> string" where
  "errorText s =
     ''Error: Unable to play '' @ [CHR 0x22] @ title s @ [CHR 0x22] @ '' by '' @ artist s"

definition handlePlaybackError :: "song \<Rightarrow> world \<Rightarrow> world" where
  "handlePlaybackError s w =
     (let w1 = (case errorMsg w of
                  Some _ \<Rightarrow> w\<lparr>errorMsg := Some (errorText s),
                              pending := pending w @ [Timeout 5000 (ClearErrorMsg s)]\<rparr>
                | None \<Rightarrow> w)
      in if isSequence w1 \<and> toNumber (currentIndex w1) < int (length (songs w1)) - 1 then
           w1\<lparr>console := console w1 @ [Skipping (title s)],
               pending := pending w1 @ [Timeout 500 SkipToNext]\<rparr>
         else if isSequence w1 then
           stop (w1\<lparr>console := console w1 @ [EndOfPlaylist], isSequence := False\<rparr>)
         else w1)"

text \<open>The body of the \<open>error\<close> listener that \<open>play\<close> registers for the song \<open>s\<close>.\<close>

definition onError :: "song \<Rightarrow> world \<Rightarrow> world" where
  "onError s w = handlePlaybackError s (w\<lparr>console := console w @ [AudioError]\<rparr>)"

subsection \<open>The event loop\<close>

text \<open>
  A pending promise settles, fulfilled (\<open>True\<close>) or rejected; a pending timer fires. The
  callbacks are the closures of \<open>play\<close>, \<open>resume\<close> and \<open>handlePlaybackError\<close>.
\<close>

fun settle :: "promise_callback \<Rightarrow> bool \<Rightarrow> world \<Rightarrow> world" where
  "settle (PlayStarted index s) ok w =
     (if ok then w\<lparr>isPlaying := True, dispatched := dispatched w @ [SongChange index s]\<rparr>
      else w\<lparr>console := console w @ [PlaybackFailed], isPlaying := False\<rparr>)"
| "settle ResumeStarted ok w =
     (if ok then w\<lparr>isPlaying := True\<rparr> else w\<lparr>console := console w @ [ResumeFailed]\<rparr>)"

fun fire :: "timer_callback \<Rightarrow> world \<Rightarrow> world" where
  "fire (ClearErrorMsg s) w =
     (case errorMsg w of
        Some t \<Rightarrow> if str_includes t (title s) then w\<lparr>errorMsg := Some []\<rparr> else w
      | None \<Rightarrow> w)"
| "fire SkipToNext w = play (toNumber (currentIndex w) + 1) True w"

datatype command =
    Play int bool
  | Pause
  | Resume
  | Stop
  | SetVolume number
  | Mute
  | Unmute
  | ToggleMute
  | PlayAll

fun perform :: "command \<Rightarrow> world \<Rightarrow> world" where
  "perform (Play index fromSequence) w = play index fromSequence w"
| "perform Pause w = pause w"
| "perform Resume w = resume w"
| "perform Stop w = stop w"
| "perform (SetVolume v) w = setVolume v w"
| "perform Mute w = mute w"
| "perform Unmute w = unmute w"
| "perform ToggleMute w = toggleMute w"
| "perform PlayAll w = playAll w"

text \<open>
  What can happen to the player: a command of the user, an \<open>ended\<close> or \<open>error\<close> event
  on an audio element (delivered to the listeners registered on that element), the
  settling of the \<open>k\<close>-th pending task if it is a promise, the firing of the \<open>k\<close>-th
  pending task if it is a timer. And an element that is not paused plays: its position
  moves.
\<close>

datatype event =
    Cmd command
  | TrackEnded handle
  | TrackError handle
  | Settle nat bool
  | Fire nat
  | TimeUpdate handle real

definition dequeue :: "nat \<Rightarrow> world \<Rightarrow> world" where
  "dequeue k w = w\<lparr>pending := take k (pending w) @ drop (Suc k) (pending w)\<rparr>"

fun step :: "event \<Rightarrow> world \<Rightarrow> world" where
  "step (Cmd c) w = perform c w"
| "step (TrackEnded a) w = (if on_ended (heap w a) then onEnded w else w)"
| "step (TrackError a) w = (case on_error (heap w a) of Some s \<Rightarrow> onError s w | None \<Rightarrow> w)"
| "step (Settle k ok) w =
     (if k < length (pending w) then
        (case pending w ! k of
           Promise cb \<Rightarrow> settle cb ok (dequeue k w)
         | Timeout d cb \<Rightarrow> w)
      else w)"
| "step (Fire k) w =
     (if k < length (pending w) then
        (case pending w ! k of
           Timeout d cb \<Rightarrow> fire cb (dequeue k w)
         | Promise cb \<Rightarrow> w)
      else w)"
| "step (TimeUpdate a t) w = (if paused (heap w a) then w else el_setCurrentTime a t w)"

fun run :: "event list \<Rightarrow> world \<Rightarrow> world" where
  "run [] w = w"
| "run (e # es) w = run es (step e w)"

text \<open>
  The \<open>ended\<close> notifications of \<open>k\<close> elements created one after the other, the first
  being \<open>h\<close>: each from the element that the notification before it made \<open>play\<close>
  create.
\<close>

definition endedOn :: "handle \<Rightarrow> nat \<Rightarrow> event list" where
  "endedOn h k = map (\<lambda>j. TrackEnded (h + j)) [0..<k]"

subsection \<open>Runs without a superseded start\<close>

text \<open>
  A start is superseded when its promise is fulfilled while the player holds no audio
  element: \<open>stop\<close> came between the request and its completion. The callbacks of
  \<open>play\<close> and \<open>resume\<close> do not look at the player before they set \<open>isPlaying\<close>.
\<close>

fun superseded :: "event \<Rightarrow> world \<Rightarrow> bool" where
  "superseded (Settle k ok) w =
     (ok \<and> k < length (pending w) \<and> audio w = None
      \<and> (case pending w ! k of Promise cb \<Rightarrow> True | Timeout d cb \<Rightarrow> False))"
| "superseded e w = False"

fun unsuperseded :: "event list \<Rightarrow> world \<Rightarrow> bool" where
  "unsuperseded [] w = True"
| "unsuperseded (e # es) w = (\<not> superseded e w \<and> unsuperseded es (step e w))"

subsection \<open>The track list of tests/player.test.js\<close>

definition mockSongs :: "song list" where
  "mockSongs =
     [\<lparr>title = ''Song 1'', artist = ''Artist 1'', song_file = ''song1.mp3''\<rparr>,
      \<lparr>title = ''Song 2'', artist = ''Artist 2'', song_file = ''song2.mp3''\<rparr>,
      \<lparr>title = ''Song 3'', artist = ''Artist 3'', song_file = ''song3.mp3''\<rparr>]"

subsection \<open>Invariants\<close>

text \<open>
  What every command, notification, completion and timer keeps true: the handle and the
  index are null together, sequence mode is on only while an element is held, the index
  is an index of the track list, and the stored volume is in \<open>[0,1]\<close> or \<open>NaN\<close>.
\<close>

definition inUnit :: "number \<Rightarrow> bool" where
  "inUnit v = (case v of Num r \<Rightarrow> 0 \<le> r \<and> r \<le> 1 | PosInf \<Rightarrow> False
               | NegInf \<Rightarrow> False | NaN \<Rightarrow> False)"

definition consistent :: "world \<Rightarrow> bool" where
  "consistent w =
     ((audio w = None \<longleftrightarrow> currentIndex w = None)
      \<and> (isSequence w \<longrightarrow> audio w \<noteq> None)
      \<and> (case currentIndex w of
            None \<Rightarrow> True
          | Some i \<Rightarrow> 0 \<le> i \<and> i < int (length (songs w)))
      \<and> (volume w = NaN \<or> inUnit (volume w)))"

text \<open>\<open>isPlaying\<close> only with an element held.\<close>

definition held :: "world \<Rightarrow> bool" where
  "held w = (isPlaying w \<longrightarrow> audio w \<noteq> None)"

text \<open>A skip timer is only ever pending over a list of at least two tracks.\<close>

definition skippable :: "world \<Rightarrow> bool" where
  "skippable w = (Timeout 500 SkipToNext \<in> set (pending w) \<longrightarrow> 2 \<le> length (songs w))"

text \<open>
  The element the player holds carries the two listeners of \<open>play\<close>, the \<open>error\<close>
  listener closed over the current track.
\<close>

definition wired :: "world \<Rightarrow> bool" where
  "wired w =
     (case audio w of
        None \<Rightarrow> True
      | Some a \<Rightarrow>
          on_ended (heap w a)
          \<and> on_error (heap w a) = Some (songs w ! nat (toNumber (currentIndex w))))"

subsection \<open>Scenarios\<close>

text \<open>
  Over the three tracks of the tests, with the \<open>error-msg\<close> element present and empty:
  sequence mode on the first track, the same after an error notification from that
  track's element, and sequence mode advanced to the last track, which has started and
  played up to second 42.
\<close>

definition onFirst :: world where
  "onFirst = run [Cmd PlayAll] (Player mockSongs (Some []))"

definition errored :: world where
  "errored = run [Cmd PlayAll, TrackError 0] (Player mockSongs (Some []))"

definition onLast :: world where
  "onLast =
     run [Cmd PlayAll, TrackEnded 0, TrackEnded 1, Settle 0 True, TimeUpdate 2 42]
       (Player mockSongs (Some []))"

section \<open>Properties\<close>

lemmas el_defs =
  el_pause_def el_setCurrentTime_def el_setVolume_def el_addListeners_def el_play_def

subsection \<open>An index out of range\<close>

lemma play_rejects:
  "index < 0 \<or> index \<ge> int (length (songs w)) \<Longrightarrow>
   play index fromSequence w = w\<lparr>console := console w @ [InvalidIndex index]\<rparr>"
  by (simp add: play_def)

text \<open>
  C6. For every state and every index with \<open>index < 0\<close> or \<open>index \<ge> n\<close>, \<open>play\<close> changes
  nothing but the console, where the invalid index is logged, whatever \<open>fromSequence\<close> is:
  no field of the player, no audio element, no pending task, no dispatched event and not
  the error message.
\<close>

theorem play_invalid_index:
  assumes "index < 0 \<or> index \<ge> int (length (songs w))"
  shows "play index fromSequence w = w\<lparr>console := console w @ [InvalidIndex index]\<rparr>"
  using assms by (simp add: play_def)

theorem play_invalid_index_witness:
  "(5 < (0::int) \<or> 5 \<ge> int (length (songs (Player mockSongs None))))
   \<and> play 5 False (Player mockSongs None)
       = (Player mockSongs None)\<lparr>console := [InvalidIndex 5]\<rparr>"
  using play_invalid_index [of 5 "Player mockSongs None" False]
  by (simp add: Player_def mockSongs_def)

subsection \<open>Volume and mute\<close>

lemma clamp_number:
  "v \<noteq> NaN \<Longrightarrow> inUnit (Math_max (Num 0) (Math_min (Num 1) v))"
  "Math_max (Num 0) (Math_min (Num 1) (Num x)) = Num (max 0 (min 1 x))"
  "Math_max (Num 0) (Math_min (Num 1) PosInf) = Num 1"
  "Math_max (Num 0) (Math_min (Num 1) NegInf) = Num 0"
  "Math_max (Num 0) (Math_min (Num 1) NaN) = NaN"
  by (cases v; simp add: Math_max_def Math_min_def inUnit_def)
     (simp_all add: Math_max_def Math_min_def max_def min_def)

text \<open>
  C7, as the code has it. For every input \<open>v\<close> other than \<open>NaN\<close>, after \<open>setVolume v\<close>
  the stored volume lies in \<open>[0,1]\<close>: it is \<open>v\<close> clamped to that interval (an infinity
  to the bound on its side), and if the player holds an audio element and is not muted,
  the element's volume is the new stored volume. The mute flag is unchanged for every
  input.
\<close>

theorem setVolume_clamped:
  "isMuted (setVolume v w) = isMuted w
   \<and> (v \<noteq> NaN \<longrightarrow>
        inUnit (volume (setVolume v w))
        \<and> (\<forall>a. audio w = Some a \<and> \<not> isMuted w \<longrightarrow>
               el_volume (heap (setVolume v w) a) = volume (setVolume v w)))
   \<and> volume (setVolume (Num x) w) = Num (if x < 0 then 0 else if 1 < x then 1 else x)
   \<and> volume (setVolume PosInf w) = Num 1
   \<and> volume (setVolume NegInf w) = Num 0"
proof -
  have stored: "volume (setVolume u w) = Math_max (Num 0) (Math_min (Num 1) u)" for u
    by (simp add: setVolume_def Let_def el_defs split: option.splits)
  have applied: "el_volume (heap (setVolume v w) a) = volume (setVolume v w)"
    if "audio w = Some a" and "\<not> isMuted w" for a
    using that by (simp add: setVolume_def Let_def el_defs)
  have muted: "isMuted (setVolume v w) = isMuted w"
    by (simp add: setVolume_def Let_def el_defs split: option.splits)
  have "max 0 (min 1 x) = (if x < 0 then 0 else if 1 < x then 1 else x)"
    by (simp add: max_def min_def)
  with stored applied muted clamp_number show ?thesis by simp
qed

theorem setVolume_clamped_witness:
  "audio (play 0 False (Player mockSongs None)) = Some 0
   \<and> \<not> isMuted (play 0 False (Player mockSongs None))
   \<and> Num (1/2) \<noteq> NaN
   \<and> inUnit (volume (setVolume (Num (1/2)) (play 0 False (Player mockSongs None))))
   \<and> volume (setVolume (Num (3/2)) (play 0 False (Player mockSongs None))) = Num 1
   \<and> volume (setVolume (Num (1/2)) (play 0 False (Player mockSongs None))) = Num (1/2)
   \<and> el_volume (heap (setVolume (Num (1/2)) (play 0 False (Player mockSongs None))) 0)
       = Num (1/2)"
proof -
  have h: "audio (play 0 False (Player mockSongs None)) = Some 0"
    "\<not> isMuted (play 0 False (Player mockSongs None))"
    by (simp_all add: play_def Player_def mockSongs_def Let_def el_defs)
  from setVolume_clamped [of "Num (1/2)" "play 0 False (Player mockSongs None)" "1/2"]
       setVolume_clamped [of "Num (3/2)" "play 0 False (Player mockSongs None)" "3/2"] h
  show ?thesis by (simp add: inUnit_def)
qed

text \<open>
  At \<open>NaN\<close> the clamp stores \<open>NaN\<close>: after \<open>setVolume NaN\<close> on a fresh player the
  stored volume is not in \<open>[0,1]\<close>.
\<close>

theorem setVolume_NaN_counterexample:
  "volume (setVolume NaN (Player mockSongs None)) = NaN
   \<and> \<not> inUnit (volume (setVolume NaN (Player mockSongs None)))"
  by (simp add: setVolume_def Player_def Math_max_def Math_min_def inUnit_def Let_def)

text \<open>
  C8. Neither \<open>mute\<close> nor \<open>unmute\<close> alters the stored volume, so \<open>mute\<close> followed by
  \<open>unmute\<close> leaves the volume that was stored before; when the player holds an audio
  element, \<open>mute\<close> sets the element's volume to 0 and \<open>unmute\<close> sets it to the stored
  volume again.
\<close>

theorem mute_unmute_volume:
  "volume (mute w) = volume w \<and> volume (unmute w) = volume w
   \<and> volume (unmute (mute w)) = volume w
   \<and> \<not> isMuted (unmute (mute w))
   \<and> (\<forall>a. audio w = Some a \<longrightarrow>
          el_volume (heap (mute w) a) = Num 0
          \<and> el_volume (heap (unmute w) a) = volume w
          \<and> el_volume (heap (unmute (mute w)) a) = volume w)"
  by (auto simp: mute_def unmute_def Let_def el_defs split: option.splits)

theorem mute_unmute_volume_witness:
  "audio (setVolume (Num (3/5)) (play 0 False (Player mockSongs None))) = Some 0
   \<and> volume (unmute (mute (setVolume (Num (3/5)) (play 0 False (Player mockSongs None))))) = Num (3/5)
   \<and> el_volume (heap (mute (setVolume (Num (3/5)) (play 0 False (Player mockSongs None)))) 0) = Num 0
   \<and> el_volume (heap (unmute (mute (setVolume (Num (3/5)) (play 0 False (Player mockSongs None))))) 0)
       = Num (3/5)"
  using mute_unmute_volume [of "setVolume (Num (3/5)) (play 0 False (Player mockSongs None))"]
  by (simp add: setVolume_def play_def Player_def mockSongs_def Let_def el_defs
        Math_max_def Math_min_def)

text \<open>
  C9. \<open>toggleMute\<close> flips \<open>isMuted\<close>: it is \<open>mute\<close> on an unmuted player and \<open>unmute\<close>
  on a muted one, and two applications give back the mute flag and the stored volume.
\<close>

theorem toggleMute_flips:
  "isMuted (toggleMute w) = (\<not> isMuted w)
   \<and> (\<not> isMuted w \<longrightarrow> toggleMute w = mute w)
   \<and> (isMuted w \<longrightarrow> toggleMute w = unmute w)
   \<and> isMuted (toggleMute (toggleMute w)) = isMuted w
   \<and> volume (toggleMute (toggleMute w)) = volume w"
  by (auto simp: toggleMute_def mute_def unmute_def Let_def el_defs split: option.splits)

theorem toggleMute_flips_witness:
  "\<not> isMuted (Player mockSongs None)
   \<and> toggleMute (Player mockSongs None) = mute (Player mockSongs None)
   \<and> isMuted (toggleMute (Player mockSongs None))
   \<and> toggleMute (toggleMute (Player mockSongs None)) = unmute (toggleMute (Player mockSongs None))
   \<and> \<not> isMuted (toggleMute (toggleMute (Player mockSongs None)))
   \<and> volume (toggleMute (toggleMute (Player mockSongs None))) = Num 1"
  using toggleMute_flips [of "Player mockSongs None"]
        toggleMute_flips [of "toggleMute (Player mockSongs None)"]
  by (simp add: Player_def toggleMute_def mute_def unmute_def)

subsection \<open>Pause and resume\<close>

text \<open>
  C10. \<open>pause\<close>, \<open>resume\<close> and the completion of the start that \<open>resume\<close> requests
  change at most \<open>isPlaying\<close> and the paused flag of the element the player holds: the
  track list, the handle, \<open>currentIndex\<close>, the stored volume, \<open>isMuted\<close> and
  \<open>isSequence\<close> are the same, no element is created, every element keeps all its fields
  but \<open>paused\<close>, and the elements the player does not hold are untouched. Without a
  handle \<open>pause\<close> and \<open>resume\<close> return the world as it is.
\<close>

theorem pause_resume_frame:
  "(\<forall>f \<in> {pause, resume, settle ResumeStarted ok}.
      songs (f w) = songs w \<and> audio (f w) = audio w \<and> currentIndex (f w) = currentIndex w
      \<and> volume (f w) = volume w \<and> isMuted (f w) = isMuted w
      \<and> isSequence (f w) = isSequence w \<and> nextHandle (f w) = nextHandle w
      \<and> (\<forall>b. (heap (f w) b)\<lparr>paused := True\<rparr> = (heap w b)\<lparr>paused := True\<rparr>)
      \<and> (\<forall>b. audio w \<noteq> Some b \<longrightarrow> heap (f w) b = heap w b))
   \<and> (audio w = None \<longrightarrow> pause w = w \<and> resume w = w)"
  by (auto simp: pause_def resume_def el_defs split: option.splits)

theorem pause_resume_frame_witness:
  "audio (Player mockSongs None) = None
   \<and> pause (Player mockSongs None) = Player mockSongs None
   \<and> resume (Player mockSongs None) = Player mockSongs None
   \<and> audio (pause (run [Cmd (Play 1 False), Settle 0 True] (Player mockSongs None))) = Some 0
   \<and> currentIndex (resume (pause (run [Cmd (Play 1 False), Settle 0 True] (Player mockSongs None))))
       = Some 1
   \<and> \<not> isPlaying (pause (run [Cmd (Play 1 False), Settle 0 True] (Player mockSongs None)))
   \<and> paused (heap (pause (run [Cmd (Play 1 False), Settle 0 True] (Player mockSongs None))) 0)"
  using pause_resume_frame [of True "Player mockSongs None"]
        pause_resume_frame [of True "run [Cmd (Play 1 False), Settle 0 True] (Player mockSongs None)"]
        pause_resume_frame [of True "pause (run [Cmd (Play 1 False), Settle 0 True] (Player mockSongs None))"]
  by (simp add: pause_def resume_def play_def Player_def mockSongs_def Let_def el_defs dequeue_def)

subsection \<open>Manual play and sequence mode\<close>

lemma play_manual_isSequence:
  "0 \<le> k \<Longrightarrow> k < int (length (songs w)) \<Longrightarrow> isSequence (play k False w)"
  by (simp add: play_def Let_def el_defs split: option.splits)

text \<open>
  C1. A manual \<open>play k\<close> during sequence mode is to leave \<open>isSequence\<close> false. The code
  does the opposite: after \<open>playAll\<close> on the three test songs, \<open>play 1\<close> leaves
  \<open>isSequence\<close> true, and so does a manual \<open>play 1\<close> on a fresh player (by
  \<open>play_manual_isSequence\<close>, every manual play of a valid index does).
\<close>

theorem manual_play_sets_sequence_mode:
  "isSequence (playAll (Player mockSongs None))
   \<and> isSequence (play 1 False (playAll (Player mockSongs None)))
   \<and> isSequence (play 1 False (Player mockSongs None))"
  by (simp add: playAll_def play_def Player_def mockSongs_def Let_def el_defs)

subsection \<open>The invariants hold in every reachable state\<close>

lemma consistent_Player: "consistent (Player songList el)"
  by (simp add: consistent_def inUnit_def Player_def)

lemma consistent_play: "consistent w \<Longrightarrow> consistent (play index fs w)"
  by (simp add: consistent_def play_def Let_def el_defs split: option.splits)

lemma consistent_pause: "consistent w \<Longrightarrow> consistent (pause w)"
  by (simp add: consistent_def pause_def el_defs split: option.splits)

lemma consistent_resume: "consistent w \<Longrightarrow> consistent (resume w)"
  by (simp add: consistent_def resume_def el_defs split: option.splits)

lemma consistent_stop: "consistent w \<Longrightarrow> consistent (stop w)"
  by (simp add: consistent_def stop_def Let_def el_defs split: option.splits)

lemma consistent_setVolume: "consistent w \<Longrightarrow> consistent (setVolume v w)"
  by (cases "v = NaN")
     (simp_all add: consistent_def setVolume_def Let_def el_defs clamp_number
        split: option.splits)

lemma consistent_mute: "consistent w \<Longrightarrow> consistent (mute w)"
  by (simp add: consistent_def mute_def Let_def el_defs split: option.splits)

lemma consistent_unmute: "consistent w \<Longrightarrow> consistent (unmute w)"
  by (simp add: consistent_def unmute_def Let_def el_defs split: option.splits)

lemma consistent_toggleMute: "consistent w \<Longrightarrow> consistent (toggleMute w)"
  by (simp add: toggleMute_def consistent_mute consistent_unmute)

lemma consistent_isSequence_upd:
  "consistent w \<Longrightarrow> audio w \<noteq> None \<or> \<not> b \<Longrightarrow> consistent (w\<lparr>isSequence := b\<rparr>)"
  by (auto simp: consistent_def split: option.splits)

lemma consistent_isPlaying_upd: "consistent w \<Longrightarrow> consistent (w\<lparr>isPlaying := b\<rparr>)"
  by (auto simp: consistent_def split: option.splits)

lemma consistent_console_upd: "consistent w \<Longrightarrow> consistent (w\<lparr>console := c\<rparr>)"
  by (auto simp: consistent_def split: option.splits)

lemma consistent_pending_upd: "consistent w \<Longrightarrow> consistent (w\<lparr>pending := c\<rparr>)"
  by (auto simp: consistent_def split: option.splits)

lemma consistent_dispatched_upd: "consistent w \<Longrightarrow> consistent (w\<lparr>dispatched := c\<rparr>)"
  by (auto simp: consistent_def split: option.splits)

lemma consistent_errorMsg_upd: "consistent w \<Longrightarrow> consistent (w\<lparr>errorMsg := c\<rparr>)"
  by (auto simp: consistent_def split: option.splits)

lemma consistent_playAll: "consistent w \<Longrightarrow> consistent (playAll w)"
  by (auto simp: consistent_def playAll_def play_def Let_def el_defs split: option.splits)

lemma consistent_onEnded: "consistent w \<Longrightarrow> consistent (onEnded w)"
  unfolding onEnded_def Let_def
  by (simp add: consistent_play consistent_isPlaying_upd consistent_isSequence_upd)

lemma consistent_handlePlaybackError:
  "consistent w \<Longrightarrow> consistent (handlePlaybackError s w)"
  unfolding handlePlaybackError_def Let_def
  by (auto intro!: consistent_stop consistent_isSequence_upd consistent_console_upd
        consistent_pending_upd consistent_errorMsg_upd split: option.splits)

lemma consistent_onError: "consistent w \<Longrightarrow> consistent (onError s w)"
  by (simp add: onError_def consistent_handlePlaybackError consistent_console_upd)

lemma consistent_settle: "consistent w \<Longrightarrow> consistent (settle cb ok w)"
  by (cases cb) (auto simp: consistent_def split: option.splits)

lemma consistent_fire: "consistent w \<Longrightarrow> consistent (fire cb w)"
  by (cases cb) (auto simp: consistent_play consistent_errorMsg_upd split: option.splits)

lemma consistent_perform: "consistent w \<Longrightarrow> consistent (perform c w)"
  by (cases c)
     (simp_all add: consistent_play consistent_pause consistent_resume consistent_stop
        consistent_setVolume consistent_mute consistent_unmute consistent_toggleMute
        consistent_playAll)

lemma consistent_seek: "consistent (el_setCurrentTime a t w) = consistent w"
  by (simp add: consistent_def el_defs split: option.splits)

lemma consistent_step: "consistent w \<Longrightarrow> consistent (step e w)"
  by (cases e)
     (auto simp: consistent_perform consistent_onEnded consistent_onError consistent_seek
        consistent_settle consistent_fire consistent_pending_upd dequeue_def split: option.splits task.splits)

lemma consistent_run: "consistent w \<Longrightarrow> consistent (run es w)"
  by (induction es arbitrary: w) (simp_all add: consistent_step)

lemma held_play: "held w \<Longrightarrow> held (play index fs w)"
  by (simp add: held_def play_def Let_def el_defs split: option.splits)

lemma held_commands:
  "held w \<Longrightarrow> held (pause w)" "held w \<Longrightarrow> held (resume w)" "held w \<Longrightarrow> held (stop w)"
  "held w \<Longrightarrow> held (setVolume v w)" "held w \<Longrightarrow> held (mute w)" "held w \<Longrightarrow> held (unmute w)"
  "held w \<Longrightarrow> held (toggleMute w)"
  by (auto simp: held_def pause_def resume_def stop_def setVolume_def mute_def unmute_def
        toggleMute_def Let_def el_defs split: option.splits)

lemma held_playAll: "held w \<Longrightarrow> held (playAll w)"
  by (auto simp: held_def playAll_def play_def Let_def el_defs split: option.splits)

lemma held_onEnded: "held (onEnded w)"
  by (auto simp: held_def onEnded_def play_def Let_def el_defs split: option.splits)

lemma held_handlePlaybackError: "held w \<Longrightarrow> held (handlePlaybackError s w)"
  by (auto simp: held_def handlePlaybackError_def stop_def Let_def el_defs split: option.splits)

lemma held_onError: "held w \<Longrightarrow> held (onError s w)"
  using held_handlePlaybackError [of "w\<lparr>console := console w @ [AudioError]\<rparr>" s]
  by (simp add: onError_def held_def)

lemma held_perform: "held w \<Longrightarrow> held (perform c w)"
  by (cases c) (simp_all add: held_play held_commands held_playAll)

lemma held_dequeue: "held (dequeue k w) = held w"
  by (simp add: held_def dequeue_def)

lemma audio_dequeue: "audio (dequeue k w) = audio w"
  by (simp add: dequeue_def)

lemma held_settle: "held w \<Longrightarrow> \<not> (ok \<and> audio w = None) \<Longrightarrow> held (settle cb ok w)"
  by (cases cb) (auto simp: held_def)

lemma held_fire: "held w \<Longrightarrow> held (fire cb w)"
  by (cases cb) (auto simp: held_play split: option.splits, auto simp: held_def)

lemma held_seek: "held (el_setCurrentTime a t w) = held w"
  by (simp add: held_def el_defs split: option.splits)

lemma held_step: "\<not> superseded e w \<Longrightarrow> held w \<Longrightarrow> held (step e w)"
  by (cases e)
     (auto simp: held_perform held_onEnded held_onError held_settle held_fire held_dequeue
        held_seek
        audio_dequeue split: option.splits task.splits)

lemma held_run: "unsuperseded es w \<Longrightarrow> held w \<Longrightarrow> held (run es w)"
  by (induction es arbitrary: w) (simp_all add: held_step)

lemma held_Player: "held (Player songList el)"
  by (simp add: held_def Player_def)

lemma skippable_Player: "skippable (Player songList el)"
  by (simp add: skippable_def Player_def)

lemma skippable_play: "skippable w \<Longrightarrow> skippable (play index fs w)"
  by (simp add: skippable_def play_def Let_def el_defs split: option.splits)

lemma skippable_commands:
  "skippable w \<Longrightarrow> skippable (pause w)" "skippable w \<Longrightarrow> skippable (resume w)"
  "skippable w \<Longrightarrow> skippable (stop w)" "skippable w \<Longrightarrow> skippable (setVolume v w)"
  "skippable w \<Longrightarrow> skippable (mute w)" "skippable w \<Longrightarrow> skippable (unmute w)"
  "skippable w \<Longrightarrow> skippable (toggleMute w)"
  by (auto simp: skippable_def pause_def resume_def stop_def setVolume_def mute_def unmute_def
        toggleMute_def Let_def el_defs split: option.splits)

lemma skippable_playAll: "skippable w \<Longrightarrow> skippable (playAll w)"
  by (auto simp: skippable_def playAll_def play_def Let_def el_defs split: option.splits)

lemma skippable_onEnded: "skippable w \<Longrightarrow> skippable (onEnded w)"
  by (auto simp: skippable_def onEnded_def play_def Let_def el_defs split: option.splits)

lemma skippable_handlePlaybackError:
  "consistent w \<Longrightarrow> skippable w \<Longrightarrow> skippable (handlePlaybackError s w)"
  by (auto simp: skippable_def consistent_def handlePlaybackError_def stop_def toNumber_def
        Let_def el_defs split: option.splits)

lemma skippable_onError: "consistent w \<Longrightarrow> skippable w \<Longrightarrow> skippable (onError s w)"
  by (auto simp: onError_def skippable_def consistent_def handlePlaybackError_def stop_def
        toNumber_def Let_def el_defs split: option.splits)

lemma skippable_perform: "skippable w \<Longrightarrow> skippable (perform c w)"
  by (cases c) (simp_all add: skippable_play skippable_commands skippable_playAll)

lemma skippable_dequeue: "skippable w \<Longrightarrow> skippable (dequeue k w)"
  by (auto simp: skippable_def dequeue_def dest: in_set_takeD in_set_dropD)

lemma skippable_settle: "skippable w \<Longrightarrow> skippable (settle cb ok w)"
  by (cases cb) (auto simp: skippable_def)

lemma skippable_fire: "skippable w \<Longrightarrow> skippable (fire cb w)"
  by (cases cb) (auto simp: skippable_play split: option.splits, auto simp: skippable_def)

lemma skippable_seek: "skippable (el_setCurrentTime a t w) = skippable w"
  by (simp add: skippable_def el_defs split: option.splits)

lemma skippable_step: "consistent w \<Longrightarrow> skippable w \<Longrightarrow> skippable (step e w)"
  by (cases e)
     (auto simp: skippable_perform skippable_onEnded skippable_onError skippable_settle
        skippable_seek
        skippable_fire skippable_dequeue split: option.splits task.splits)

lemma skippable_run: "consistent w \<Longrightarrow> skippable w \<Longrightarrow> skippable (run es w)"
  by (induction es arbitrary: w) (simp_all add: skippable_step consistent_step)

lemma wired_Player: "wired (Player songList el)"
  by (simp add: wired_def Player_def)

lemma wired_play: "wired w \<Longrightarrow> wired (play index fs w)"
  by (simp add: wired_def play_def toNumber_def Let_def el_defs split: option.splits)

lemma wired_commands:
  "wired w \<Longrightarrow> wired (pause w)" "wired w \<Longrightarrow> wired (resume w)" "wired w \<Longrightarrow> wired (stop w)"
  "wired w \<Longrightarrow> wired (setVolume v w)" "wired w \<Longrightarrow> wired (mute w)" "wired w \<Longrightarrow> wired (unmute w)"
  "wired w \<Longrightarrow> wired (toggleMute w)"
  by (auto simp: wired_def pause_def resume_def stop_def setVolume_def mute_def unmute_def
        toggleMute_def Let_def el_defs split: option.splits)

lemma wired_playAll: "wired w \<Longrightarrow> wired (playAll w)"
  by (auto simp: wired_def playAll_def play_def toNumber_def Let_def el_defs split: option.splits)

lemma wired_onEnded: "wired w \<Longrightarrow> wired (onEnded w)"
  by (auto simp: wired_def onEnded_def play_def toNumber_def Let_def el_defs split: option.splits)

lemma wired_onError: "wired w \<Longrightarrow> wired (onError s w)"
  by (auto simp: wired_def onError_def handlePlaybackError_def stop_def Let_def el_defs
        split: option.splits)

lemma wired_perform: "wired w \<Longrightarrow> wired (perform c w)"
  by (cases c) (simp_all add: wired_play wired_commands wired_playAll)

lemma wired_dequeue: "wired (dequeue k w) = wired w"
  by (simp add: wired_def dequeue_def split: option.splits)

lemma wired_settle: "wired w \<Longrightarrow> wired (settle cb ok w)"
  by (cases cb) (auto simp: wired_def split: option.splits)

lemma wired_fire: "wired w \<Longrightarrow> wired (fire cb w)"
  by (cases cb) (auto simp: wired_play split: option.splits, auto simp: wired_def split: option.splits)

lemma wired_seek: "wired (el_setCurrentTime a t w) = wired w"
  by (simp add: wired_def el_defs split: option.splits)

lemma wired_step: "wired w \<Longrightarrow> wired (step e w)"
  by (cases e)
     (auto simp: wired_perform wired_onEnded wired_onError wired_settle wired_fire
        wired_seek
        wired_dequeue split: option.splits task.splits)

lemma wired_run: "wired w \<Longrightarrow> wired (run es w)"
  by (induction es arbitrary: w) (simp_all add: wired_step)

text \<open>
  So a notification from the held element runs the listener bodies \<open>onEnded\<close> and
  \<open>onError\<close>, in every reachable state.
\<close>

lemma notifications_of_held_element:
  assumes "w = run es (Player songList el)" and "audio w = Some a" and "currentIndex w = Some i"
  shows "step (TrackEnded a) w = onEnded w"
    and "step (TrackError a) w = onError (songs w ! nat i) w"
  using wired_run [OF wired_Player, of es songList el] assms
  by (simp_all add: wired_def toNumber_def)

text \<open>
  C5, as the code has it. In every state reachable from the initial state by commands,
  \<open>ended\<close> and \<open>error\<close> notifications, start completions, timers and playback
  progress, the audio handle is null exactly when \<open>currentIndex\<close> is null. \<open>isPlaying\<close> implies a handle in every
  such state provided no start is fulfilled while the player holds no handle: the
  \<open>then\<close> callbacks of \<open>play\<close> and \<open>resume\<close> set \<open>isPlaying\<close> without looking at the
  player.
\<close>

theorem handle_index_invariant:
  "(audio (run es (Player songList el)) = None
      \<longleftrightarrow> currentIndex (run es (Player songList el)) = None)
   \<and> (unsuperseded es (Player songList el) \<longrightarrow>
        isPlaying (run es (Player songList el)) \<longrightarrow> audio (run es (Player songList el)) \<noteq> None)"
  using consistent_run [OF consistent_Player, of es songList el]
        held_run [OF _ held_Player, of es songList el]
  by (simp add: consistent_def held_def)

theorem handle_index_invariant_witness:
  "unsuperseded [Cmd PlayAll, Settle 0 True, TrackEnded 0, Cmd Pause, Cmd Stop]
     (Player mockSongs None)
   \<and> isPlaying (run [Cmd PlayAll, Settle 0 True] (Player mockSongs None))
   \<and> audio (run [Cmd PlayAll, Settle 0 True] (Player mockSongs None)) = Some 0
   \<and> currentIndex (run [Cmd PlayAll, Settle 0 True] (Player mockSongs None)) = Some 0
   \<and> audio (run [Cmd PlayAll, Settle 0 True, TrackEnded 0, Cmd Pause, Cmd Stop]
        (Player mockSongs None)) = None
   \<and> currentIndex (run [Cmd PlayAll, Settle 0 True, TrackEnded 0, Cmd Pause, Cmd Stop]
        (Player mockSongs None)) = None"
  using handle_index_invariant [of "[Cmd PlayAll, Settle 0 True]" mockSongs None]
        handle_index_invariant
          [of "[Cmd PlayAll, Settle 0 True, TrackEnded 0, Cmd Pause, Cmd Stop]" mockSongs None]
  by (simp add: playAll_def play_def stop_def pause_def onEnded_def toNumber_def Player_def
        mockSongs_def Let_def el_defs dequeue_def)

text \<open>
  Without the proviso the second half fails: \<open>play 0\<close>, then \<open>stop\<close>, then the
  fulfilment of the start that \<open>play 0\<close> requested leave \<open>isPlaying\<close> true and no
  handle.
\<close>

theorem superseded_start_counterexample:
  "isPlaying (run [Cmd (Play 0 False), Cmd Stop, Settle 0 True] (Player mockSongs None))
   \<and> audio (run [Cmd (Play 0 False), Cmd Stop, Settle 0 True] (Player mockSongs None)) = None"
  by (simp add: play_def stop_def Player_def mockSongs_def Let_def el_defs dequeue_def)

subsection \<open>Sequence mode: advancing on ended\<close>

lemma songs_play: "songs (play index fs w) = songs w"
  by (simp add: play_def Let_def el_defs split: option.splits)

lemma play_fromSequence:
  assumes "0 \<le> index" and "index < int (length (songs w))"
  shows "currentIndex (play index True w) = Some index"
    and "isSequence (play index True w) = isSequence w"
    and "audio (play index True w) = Some (nextHandle w)"
    and "\<not> paused (heap (play index True w) (nextHandle w))"
    and "src (heap (play index True w) (nextHandle w)) = song_file (songs w ! nat index)"
  using assms by (simp_all add: play_def new_Audio_def Let_def el_defs split: option.splits)

lemma play_not_playing: "\<not> isPlaying w \<Longrightarrow> \<not> isPlaying (play index fs w)"
  by (simp add: play_def Let_def el_defs split: option.splits)

lemma onEnded_not_playing: "\<not> isPlaying (onEnded w)"
  by (simp add: onEnded_def Let_def play_not_playing)

lemma playAll_start:
  assumes "songs w \<noteq> []"
  shows "currentIndex (playAll w) = Some 0" and "isSequence (playAll w)"
    and "songs (playAll w) = songs w"
  using assms by (simp_all add: playAll_def play_fromSequence songs_play)

lemma onEnded_last:
  assumes "currentIndex w = Some i" and "int (length (songs w)) \<le> i + 1"
  shows "currentIndex (onEnded w) = Some i" and "\<not> isSequence (onEnded w)"
  using assms by (simp_all add: onEnded_def Let_def toNumber_def)

lemma run_snoc: "run (es @ [e]) w = step e (run es w)"
  by (induction es arbitrary: w) simp_all

lemma endedOn_Suc: "endedOn h (Suc k) = endedOn h k @ [TrackEnded (h + k)]"
  by (simp add: endedOn_def)

lemma play_new_element:
  assumes "0 \<le> index" and "index < int (length (songs w))"
  shows "nextHandle (play index fs w) = Suc (nextHandle w)"
    and "on_ended (heap (play index fs w) (nextHandle w))"
    and "on_error (heap (play index fs w) (nextHandle w)) = Some (songs w ! nat index)"
  using assms by (simp_all add: play_def new_Audio_def Let_def el_defs split: option.splits)

lemma playAll_element:
  assumes "songs w \<noteq> []"
  shows "audio (playAll w) = Some (nextHandle w)"
    and "nextHandle (playAll w) = Suc (nextHandle w)"
    and "on_ended (heap (playAll w) (nextHandle w))"
  using assms play_fromSequence [of 0 "w\<lparr>isSequence := True\<rparr>"]
    play_new_element [of 0 "w\<lparr>isSequence := True\<rparr>" True]
  by (simp_all add: playAll_def)

lemma ended_run_prefix:
  assumes "songs w \<noteq> []"
  shows "k < length (songs w) \<Longrightarrow>
         currentIndex (run (Cmd PlayAll # endedOn (nextHandle w) k) w) = Some (int k)
         \<and> isSequence (run (Cmd PlayAll # endedOn (nextHandle w) k) w)
         \<and> songs (run (Cmd PlayAll # endedOn (nextHandle w) k) w) = songs w
         \<and> audio (run (Cmd PlayAll # endedOn (nextHandle w) k) w) = Some (nextHandle w + k)
         \<and> nextHandle (run (Cmd PlayAll # endedOn (nextHandle w) k) w)
             = Suc (nextHandle w + k)
         \<and> on_ended (heap (run (Cmd PlayAll # endedOn (nextHandle w) k) w) (nextHandle w + k))"
proof (induction k)
  case 0
  with assms show ?case by (simp add: endedOn_def playAll_start playAll_element)
next
  case (Suc k)
  define u where "u = run (Cmd PlayAll # endedOn (nextHandle w) k) w"
  from Suc have ih: "currentIndex u = Some (int k)" "isSequence u" "songs u = songs w"
    "audio u = Some (nextHandle w + k)" "nextHandle u = Suc (nextHandle w + k)"
    "on_ended (heap u (nextHandle w + k))"
    by (simp_all add: u_def)
  have r: "run (Cmd PlayAll # endedOn (nextHandle w) (Suc k)) w
           = step (TrackEnded (nextHandle w + k)) u"
    unfolding u_def endedOn_Suc by (simp add: run_snoc [symmetric] del: run.simps)
  have d: "step (TrackEnded (nextHandle w + k)) u = play (int k + 1) True (u\<lparr>isPlaying := False\<rparr>)"
    using ih Suc.prems by (simp add: onEnded_def Let_def toNumber_def)
  have v: "0 \<le> int k + 1" "int k + 1 < int (length (songs (u\<lparr>isPlaying := False\<rparr>)))"
    using Suc.prems ih(3) by simp_all
  from play_fromSequence [OF v] play_new_element [OF v, of True] ih show ?case
    unfolding r d by (simp add: songs_play)
qed

text \<open>
  C3. Over a non-empty track list of length \<open>N\<close>, from any state \<open>w\<close>: \<open>playAll\<close>
  creates the element \<open>nextHandle w\<close>, and each \<open>ended\<close> notification is delivered to
  the element held when it arrives. After \<open>playAll\<close> and \<open>k < N\<close> notifications
  \<open>currentIndex\<close> is \<open>k\<close> and sequence mode is on, so the index runs through
  \<open>0, 1, \<dots>, N-1\<close>; the next notification leaves \<open>isPlaying\<close> false even where the
  start of track \<open>k\<close> had set it; and the \<open>N\<close>-th notification clears \<open>isSequence\<close>
  and leaves \<open>currentIndex\<close> at \<open>N-1\<close>.
\<close>

theorem playAll_then_ended:
  assumes "songs w \<noteq> []"
  shows "(\<forall>k < length (songs w).
            currentIndex (run (Cmd PlayAll # endedOn (nextHandle w) k) w) = Some (int k)
            \<and> isSequence (run (Cmd PlayAll # endedOn (nextHandle w) k) w)
            \<and> audio (run (Cmd PlayAll # endedOn (nextHandle w) k) w) = Some (nextHandle w + k)
            \<and> \<not> isPlaying
                 (step (TrackEnded (nextHandle w + k))
                    ((run (Cmd PlayAll # endedOn (nextHandle w) k) w)\<lparr>isPlaying := True\<rparr>)))
         \<and> currentIndex (run (Cmd PlayAll # endedOn (nextHandle w) (length (songs w))) w)
             = Some (int (length (songs w)) - 1)
         \<and> \<not> isSequence (run (Cmd PlayAll # endedOn (nextHandle w) (length (songs w))) w)
         \<and> \<not> isPlaying (run (Cmd PlayAll # endedOn (nextHandle w) (length (songs w))) w)"
proof -
  obtain m where m: "length (songs w) = Suc m"
    using assms by (cases "songs w") simp_all
  define u where "u = run (Cmd PlayAll # endedOn (nextHandle w) m) w"
  have u: "currentIndex u = Some (int m)" "songs u = songs w"
    "on_ended (heap u (nextHandle w + m))"
    using ended_run_prefix [OF assms, of m] m by (simp_all add: u_def)
  have r: "run (Cmd PlayAll # endedOn (nextHandle w) (Suc m)) w
           = step (TrackEnded (nextHandle w + m)) u"
    unfolding u_def endedOn_Suc by (simp add: run_snoc [symmetric] del: run.simps)
  have d: "step (TrackEnded (nextHandle w + m)) u = onEnded u"
    using u(3) by simp
  have fin: "currentIndex (onEnded u) = Some (int m)" "\<not> isSequence (onEnded u)"
    using onEnded_last [OF u(1)] u(2) m by simp_all
  have quiet: "\<not> isPlaying
                 (step (TrackEnded (nextHandle w + k))
                    ((run (Cmd PlayAll # endedOn (nextHandle w) k) w)\<lparr>isPlaying := True\<rparr>))"
    if "k < length (songs w)" for k
  proof -
    have "on_ended (heap (run (Cmd PlayAll # endedOn (nextHandle w) k) w) (nextHandle w + k))"
      using ended_run_prefix [OF assms that] by simp
    then show ?thesis by (simp add: onEnded_not_playing)
  qed
  from fin quiet ended_run_prefix [OF assms] show ?thesis
    unfolding m r d by (simp add: onEnded_not_playing del: run.simps step.simps)
qed

theorem playAll_then_ended_witness:
  "songs (Player mockSongs None) \<noteq> []
   \<and> currentIndex (run [Cmd PlayAll] (Player mockSongs None)) = Some 0
   \<and> currentIndex (run [Cmd PlayAll, TrackEnded 0] (Player mockSongs None)) = Some 1
   \<and> currentIndex (run [Cmd PlayAll, TrackEnded 0, TrackEnded 1] (Player mockSongs None))
       = Some 2
   \<and> isSequence (run [Cmd PlayAll, TrackEnded 0, TrackEnded 1] (Player mockSongs None))
   \<and> audio (run [Cmd PlayAll, TrackEnded 0, TrackEnded 1] (Player mockSongs None)) = Some 2
   \<and> currentIndex
        (run [Cmd PlayAll, TrackEnded 0, TrackEnded 1, TrackEnded 2] (Player mockSongs None))
       = Some 2
   \<and> \<not> isSequence
        (run [Cmd PlayAll, TrackEnded 0, TrackEnded 1, TrackEnded 2] (Player mockSongs None))
   \<and> \<not> isPlaying
        (run [Cmd PlayAll, TrackEnded 0, TrackEnded 1, TrackEnded 2] (Player mockSongs None))"
proof -
  have ne: "songs (Player mockSongs None) \<noteq> []"
    and len: "length (songs (Player mockSongs None)) = 3"
    and nh: "nextHandle (Player mockSongs None) = 0"
    by (simp_all add: Player_def mockSongs_def)
  have e: "endedOn 0 0 = []" "endedOn 0 1 = [TrackEnded 0]"
    "endedOn 0 2 = [TrackEnded 0, TrackEnded 1]"
    "endedOn 0 3 = [TrackEnded 0, TrackEnded 1, TrackEnded 2]"
    by (simp_all add: endedOn_def upt_rec eval_nat_numeral)
  have all3: "(\<forall>k<3. P k) = (P 0 \<and> P 1 \<and> P (2::nat))" for P
    by (auto simp: less_Suc_eq eval_nat_numeral)
  from playAll_then_ended [OF ne] show ?thesis
    unfolding len nh all3 using ne e
    by (simp del: run.simps step.simps)
qed

subsection \<open>Sequence mode: errors\<close>

lemma fire_skip:
  assumes "j < length (pending w)" and "pending w ! j = Timeout d SkipToNext"
  shows "step (Fire j) w = play (toNumber (currentIndex w) + 1) True (dequeue j w)"
  using assms by (simp add: dequeue_def)

lemma dequeue_frame:
  "songs (dequeue j w) = songs w" "currentIndex (dequeue j w) = currentIndex w"
  "isSequence (dequeue j w) = isSequence w" "nextHandle (dequeue j w) = nextHandle w"
  "audio (dequeue j w) = audio w"
  by (simp_all add: dequeue_def)

lemma onFirst_eval:
  "isSequence onFirst" "currentIndex onFirst = Some 0" "audio onFirst = Some 0"
  "length (songs onFirst) = 3" "nextHandle onFirst = 1"
  "length (pending (step (TrackError 0) onFirst)) = 3"
  by (simp_all add: onFirst_def playAll_def play_def onError_def handlePlaybackError_def
        toNumber_def Player_def mockSongs_def new_Audio_def Let_def el_defs)

lemma onLast_eval:
  "isSequence onLast" "currentIndex onLast = Some 2" "audio onLast = Some 2"
  "length (songs onLast) = 3" "currentTime (heap onLast 2) = 42" "isPlaying onLast"
  "\<not> paused (heap onLast 2)"
  by (simp_all add: onLast_def playAll_def play_def onEnded_def dequeue_def
        toNumber_def Player_def mockSongs_def new_Audio_def Let_def el_defs)

text \<open>
  C4. In a reachable state with sequence mode on, \<open>currentIndex\<close> is an index \<open>i\<close> of the
  track list and an element \<open>a\<close> is held. When the \<open>error\<close> notification of that element
  arrives, the error is logged and the message names track \<open>i\<close>. If \<open>i\<close> is not the
  last index, the player state stays as it is and a timer of 500 ms is the last pending
  task; when that timer fires, \<open>currentIndex\<close> is \<open>i + 1\<close>, sequence mode is still on and
  a new element for that track has been asked to play. If \<open>i\<close> is the last index, the
  notification clears \<open>isSequence\<close> and stops: the element is paused, its position is
  back at 0 and it is dropped, \<open>currentIndex\<close> is null, the stop is announced, and no
  skip is scheduled.
\<close>

theorem track_error_in_sequence_mode:
  assumes "w = run es (Player songList el)" and "isSequence w"
  shows "\<exists>i a. currentIndex w = Some i \<and> audio w = Some a
     \<and> 0 \<le> i \<and> i < int (length (songs w))
     \<and> (i < int (length (songs w)) - 1 \<longrightarrow>
          (let w1 = step (TrackError a) w; j = length (pending w1) - 1 in
             currentIndex w1 = Some i \<and> isSequence w1 \<and> audio w1 = Some a
             \<and> console w1 = console w @ [AudioError, Skipping (title (songs w ! nat i))]
             \<and> errorMsg w1 = map_option (\<lambda>t. errorText (songs w ! nat i)) (errorMsg w)
             \<and> j < length (pending w1) \<and> pending w1 ! j = Timeout 500 SkipToNext
             \<and> currentIndex (step (Fire j) w1) = Some (i + 1)
             \<and> isSequence (step (Fire j) w1)
             \<and> audio (step (Fire j) w1) = Some (nextHandle w)
             \<and> src (heap (step (Fire j) w1) (nextHandle w))
                 = song_file (songs w ! nat (i + 1))
             \<and> \<not> paused (heap (step (Fire j) w1) (nextHandle w))))
     \<and> (i = int (length (songs w)) - 1 \<longrightarrow>
          (let w1 = step (TrackError a) w in
             \<not> isSequence w1 \<and> audio w1 = None \<and> currentIndex w1 = None
             \<and> \<not> isPlaying w1 \<and> paused (heap w1 a) \<and> currentTime (heap w1 a) = 0
             \<and> console w1 = console w @ [AudioError, EndOfPlaylist]
             \<and> errorMsg w1 = map_option (\<lambda>t. errorText (songs w ! nat i)) (errorMsg w)
             \<and> dispatched w1 = dispatched w @ [PlaybackStopped]
             \<and> (pending w1 = pending w
                 \<or> pending w1 = pending w @ [Timeout 5000 (ClearErrorMsg (songs w ! nat i))])))"
proof -
  have c: "consistent w"
    using assms(1) by (simp add: consistent_run consistent_Player)
  with assms(2) obtain i a where ia: "currentIndex w = Some i" "audio w = Some a"
    "0 \<le> i" "i < int (length (songs w))"
    by (auto simp: consistent_def split: option.splits)
  define s where "s = songs w ! nat i"
  have deliver: "step (TrackError a) w = onError s w"
    unfolding s_def by (rule notifications_of_held_element(2) [OF assms(1) ia(2) ia(1)])
  have skip: "(let w1 = step (TrackError a) w; j = length (pending w1) - 1 in
             currentIndex w1 = Some i \<and> isSequence w1 \<and> audio w1 = Some a
             \<and> console w1 = console w @ [AudioError, Skipping (title s)]
             \<and> errorMsg w1 = map_option (\<lambda>t. errorText s) (errorMsg w)
             \<and> j < length (pending w1) \<and> pending w1 ! j = Timeout 500 SkipToNext
             \<and> currentIndex (step (Fire j) w1) = Some (i + 1)
             \<and> isSequence (step (Fire j) w1)
             \<and> audio (step (Fire j) w1) = Some (nextHandle w)
             \<and> src (heap (step (Fire j) w1) (nextHandle w))
                 = song_file (songs w ! nat (i + 1))
             \<and> \<not> paused (heap (step (Fire j) w1) (nextHandle w)))"
    if lt: "i < int (length (songs w)) - 1"
  proof -
    define w1 where "w1 = step (TrackError a) w"
    define j where "j = length (pending w1) - 1"
    have w1: "currentIndex w1 = Some i" "isSequence w1" "audio w1 = Some a"
      "songs w1 = songs w" "nextHandle w1 = nextHandle w"
      "pending w1 \<noteq> []" "last (pending w1) = Timeout 500 SkipToNext"
      "console w1 = console w @ [AudioError, Skipping (title s)]"
      "errorMsg w1 = map_option (\<lambda>t. errorText s) (errorMsg w)"
      using ia lt assms(2) unfolding w1_def deliver
      by (simp_all add: onError_def handlePlaybackError_def toNumber_def Let_def
            split: option.splits)
    have j: "j < length (pending w1)" "pending w1 ! j = Timeout 500 SkipToNext"
      using w1(6,7) by (simp_all add: j_def last_conv_nth)
    have f: "step (Fire j) w1 = play (i + 1) True (dequeue j w1)"
      using fire_skip [OF j] w1(1) by (simp add: toNumber_def)
    have v: "0 \<le> i + 1" "i + 1 < int (length (songs (dequeue j w1)))"
      using ia lt by (simp_all add: dequeue_frame w1)
    from play_fromSequence [OF v] w1 j show ?thesis
      unfolding w1_def [symmetric] j_def [symmetric] Let_def f
      by (simp add: dequeue_frame)
  qed
  have last: "(let w1 = step (TrackError a) w in
             \<not> isSequence w1 \<and> audio w1 = None \<and> currentIndex w1 = None
             \<and> \<not> isPlaying w1 \<and> paused (heap w1 a) \<and> currentTime (heap w1 a) = 0
             \<and> console w1 = console w @ [AudioError, EndOfPlaylist]
             \<and> errorMsg w1 = map_option (\<lambda>t. errorText s) (errorMsg w)
             \<and> dispatched w1 = dispatched w @ [PlaybackStopped]
             \<and> (pending w1 = pending w
                 \<or> pending w1 = pending w @ [Timeout 5000 (ClearErrorMsg s)]))"
    if "i = int (length (songs w)) - 1"
    using that ia assms(2) unfolding deliver
    by (simp add: onError_def handlePlaybackError_def stop_def toNumber_def Let_def el_defs
          split: option.splits)
  from ia skip last show ?thesis unfolding s_def by blast
qed

theorem track_error_in_sequence_mode_witness:
  "isSequence onFirst \<and> currentIndex onFirst = Some 0
   \<and> pending (step (TrackError 0) onFirst) ! 2 = Timeout 500 SkipToNext
   \<and> errorMsg (step (TrackError 0) onFirst) = Some (errorText (mockSongs ! 0))
   \<and> currentIndex (step (Fire 2) (step (TrackError 0) onFirst)) = Some 1
   \<and> isSequence (step (Fire 2) (step (TrackError 0) onFirst))
   \<and> isSequence onLast \<and> currentIndex onLast = Some 2
   \<and> currentTime (heap onLast 2) = 42
   \<and> \<not> isSequence (step (TrackError 2) onLast)
   \<and> audio (step (TrackError 2) onLast) = None
   \<and> currentIndex (step (TrackError 2) onLast) = None
   \<and> paused (heap (step (TrackError 2) onLast) 2)
   \<and> currentTime (heap (step (TrackError 2) onLast) 2) = 0"
proof -
  have f: "errorMsg onFirst = Some []" "songs onFirst ! 0 = mockSongs ! 0"
    by (simp_all add: onFirst_def playAll_def play_def Player_def Let_def el_defs)
  from track_error_in_sequence_mode [OF onFirst_def onFirst_eval(1)]
       track_error_in_sequence_mode [OF onLast_def onLast_eval(1)]
  show ?thesis
    by (auto simp: Let_def onFirst_eval onFirst_eval onLast_eval f simp del: step.simps)
qed

subsection \<open>The skip timer after stop or a manual play\<close>

lemma stop_clears:
  "consistent w \<Longrightarrow> currentIndex (stop w) = None \<and> audio (stop w) = None \<and> \<not> isSequence (stop w)"
  by (auto simp: consistent_def stop_def Let_def el_defs split: option.splits)

lemma stop_frame:
  "pending (stop w) = pending w" "songs (stop w) = songs w" "nextHandle (stop w) = nextHandle w"
  by (simp_all add: stop_def Let_def el_defs split: option.splits)

lemma play_pending:
  "pending (play index fs w) =
     (if index < 0 \<or> index \<ge> int (length (songs w)) then pending w
      else pending w @ [Promise (PlayStarted index (songs w ! nat index))])"
  by (simp add: play_def Let_def el_defs split: option.splits)

lemma play_manual:
  assumes "0 \<le> index" and "index < int (length (songs w))"
  shows "currentIndex (play index False w) = Some index"
    and "nextHandle (play index False w) = Suc (nextHandle w)"
  using assms by (simp_all add: play_def Let_def el_defs split: option.splits)

lemma errored_eval:
  "pending errored = [Promise (PlayStarted 0 (mockSongs ! 0)),
      Timeout 5000 (ClearErrorMsg (mockSongs ! 0)), Timeout 500 SkipToNext]"
  "audio errored = Some 0" "currentIndex errored = Some 0" "isSequence errored"
  "songs errored = mockSongs" "nextHandle errored = 1"
  by (simp_all add: errored_def playAll_def play_def onError_def handlePlaybackError_def
        toNumber_def Player_def mockSongs_def new_Audio_def Let_def el_defs)

text \<open>
  C2, as the code has it. The skip timer of the error path is not cancelled by \<open>stop\<close>
  or by a manual \<open>play\<close> and looks at no state when it fires: it calls
  \<open>play (currentIndex + 1)\<close> from the sequence, a null index counting as 0. In a
  reachable state with the timer pending: after \<open>stop\<close> the timer is still pending, and
  when it fires it starts track 1 on a new element, outside sequence mode; after a manual
  \<open>play k\<close> it is still pending, and when it fires it replaces track \<open>k\<close> by track
  \<open>k + 1\<close>, or, \<open>k\<close> being the last track, only logs the invalid index.
\<close>

theorem error_skip_not_cancelled:
  assumes "w = run es (Player songList el)"
    and "j < length (pending w)" and "pending w ! j = Timeout 500 SkipToNext"
  shows "pending (stop w) ! j = Timeout 500 SkipToNext
    \<and> audio (stop w) = None
    \<and> currentIndex (step (Fire j) (stop w)) = Some 1
    \<and> audio (step (Fire j) (stop w)) = Some (nextHandle w)
    \<and> \<not> paused (heap (step (Fire j) (stop w)) (nextHandle w))
    \<and> \<not> isSequence (step (Fire j) (stop w))
    \<and> (0 \<le> k \<and> k < int (length (songs w)) \<longrightarrow>
         pending (play k False w) ! j = Timeout 500 SkipToNext
         \<and> (if k + 1 < int (length (songs w))
            then currentIndex (step (Fire j) (play k False w)) = Some (k + 1)
                 \<and> audio (step (Fire j) (play k False w)) = Some (Suc (nextHandle w))
            else step (Fire j) (play k False w)
                 = (dequeue j (play k False w))
                     \<lparr>console := console (play k False w) @ [InvalidIndex (k + 1)]\<rparr>))"
proof -
  have c: "consistent w" and sk: "skippable w"
    using assms(1) by (simp_all add: consistent_run consistent_Player skippable_run skippable_Player)
  from sk assms(2,3) have two: "2 \<le> length (songs w)"
    unfolding skippable_def using nth_mem by fastforce
  have s1: "pending (stop w) ! j = Timeout 500 SkipToNext" "j < length (pending (stop w))"
    using assms(2,3) by (simp_all add: stop_frame)
  have fs: "step (Fire j) (stop w) = play 1 True (dequeue j (stop w))"
    using fire_skip [OF s1(2) s1(1)] stop_clears [OF c] by (simp add: toNumber_def)
  have valid1: "(0::int) \<le> 1" "1 < int (length (songs (dequeue j (stop w))))"
    using two by (simp_all add: dequeue_frame stop_frame)
  have after_stop: "currentIndex (step (Fire j) (stop w)) = Some 1"
    "audio (step (Fire j) (stop w)) = Some (nextHandle w)"
    "\<not> paused (heap (step (Fire j) (stop w)) (nextHandle w))"
    "\<not> isSequence (step (Fire j) (stop w))"
    unfolding fs using play_fromSequence [OF valid1] stop_clears [OF c]
    by (simp_all add: dequeue_frame stop_frame)
  have manual: "pending (play k False w) ! j = Timeout 500 SkipToNext
         \<and> (if k + 1 < int (length (songs w))
            then currentIndex (step (Fire j) (play k False w)) = Some (k + 1)
                 \<and> audio (step (Fire j) (play k False w)) = Some (Suc (nextHandle w))
            else step (Fire j) (play k False w)
                 = (dequeue j (play k False w))
                     \<lparr>console := console (play k False w) @ [InvalidIndex (k + 1)]\<rparr>)"
    if k: "0 \<le> k" "k < int (length (songs w))"
  proof -
    have p: "j < length (pending (play k False w))"
      "pending (play k False w) ! j = Timeout 500 SkipToNext"
      using assms(2,3) k by (simp_all add: play_pending nth_append)
    have fm: "step (Fire j) (play k False w) = play (k + 1) True (dequeue j (play k False w))"
      using fire_skip [OF p] play_manual [OF k] by (simp add: toNumber_def)
    show ?thesis
    proof (cases "k + 1 < int (length (songs w))")
      case True
      then have v: "0 \<le> k + 1" "k + 1 < int (length (songs (dequeue j (play k False w))))"
        using k by (simp_all add: dequeue_frame songs_play)
      from play_fromSequence [OF v] True p(2) play_manual [OF k] show ?thesis
        unfolding fm by (simp add: dequeue_frame)
    next
      case False
      then have "k + 1 < 0 \<or> k + 1 \<ge> int (length (songs (dequeue j (play k False w))))"
        by (simp add: dequeue_frame songs_play)
      from play_rejects [OF this] False p(2) show ?thesis
        unfolding fm by (simp add: dequeue_def)
    qed
  qed
  from s1 stop_clears [OF c] after_stop manual show ?thesis by (simp del: step.simps)
qed

theorem error_skip_not_cancelled_witness:
  "2 < length (pending errored) \<and> pending errored ! 2 = Timeout 500 SkipToNext
   \<and> pending (stop errored) ! 2 = Timeout 500 SkipToNext
   \<and> currentIndex (step (Fire 2) (stop errored)) = Some 1
   \<and> audio (step (Fire 2) (stop errored)) = Some 1
   \<and> \<not> isSequence (step (Fire 2) (stop errored))
   \<and> currentIndex (step (Fire 2) (play 0 False errored)) = Some 1
   \<and> step (Fire 2) (play 2 False errored)
       = (dequeue 2 (play 2 False errored))
           \<lparr>console := console (play 2 False errored) @ [InvalidIndex 3]\<rparr>"
proof -
  have h: "2 < length (pending errored)" "pending errored ! 2 = Timeout 500 SkipToNext"
    by (simp_all add: errored_eval)
  have n: "int (length (songs errored)) = 3" "nextHandle errored = 1"
    by (simp_all add: errored_eval mockSongs_def)
  from error_skip_not_cancelled [OF errored_def h, of 0]
       error_skip_not_cancelled [OF errored_def h, of 2] h n
  show ?thesis by (simp del: step.simps)
qed

text \<open>
  So the timer is not inert: after \<open>playAll\<close>, an error on the first track and
  \<open>stop\<close>, the pending timer fires and playback restarts on track 1; after a manual
  \<open>play 0\<close> instead, it moves the player on to track 1.
\<close>

theorem error_skip_after_stop_counterexample:
  "pending (stop errored) ! 2 = Timeout 500 SkipToNext
   \<and> audio (stop errored) = None
   \<and> currentIndex (stop errored) = None
   \<and> step (Fire 2) (stop errored) \<noteq> stop errored
   \<and> audio (step (Fire 2) (stop errored)) = Some 1
   \<and> currentIndex (step (Fire 2) (stop errored)) = Some 1
   \<and> \<not> paused (heap (step (Fire 2) (stop errored)) 1)
   \<and> currentIndex (play 0 False errored) = Some 0
   \<and> currentIndex (step (Fire 2) (play 0 False errored)) = Some 1"
  by (simp add: errored_def playAll_def play_def stop_def onError_def handlePlaybackError_def
        toNumber_def Player_def mockSongs_def new_Audio_def Let_def el_defs dequeue_def)

end
